theory Spec2Isabelle
  imports Complex_Main "HOL-Library.Sublist"
begin

section \<open>AtmosEye: fusion, alerting, history and retention (src/iaqcalc.py)\<close>

text \<open>
  Conventions of the embedding.
  \<^item> Python numbers (\<open>int\<close> and \<open>float\<close> alike) are exact reals; a decimal literal such
    as \<open>12.1\<close> denotes that decimal. Binary rounding of IEEE doubles, \<open>nan\<close> and \<open>inf\<close>
    are outside the model.
  \<^item> A dictionary of measurements is a map from key strings to numbers; an absent key is
    \<open>None\<close>, which is also what \<open>dict.get\<close> returns for it.
  \<^item> Module-level globals and object attributes become fields of explicit state records,
    and every function that mutates them returns the updated state.
  \<^item> Logging and the \<open>system_health\<close> record have no influence on any modelled value and
    are left out.
\<close>

subsection \<open>Library functions used by the source\<close>

text \<open>Python 3 \<open>round(x)\<close> with one argument: nearest integer, ties to the even one.\<close>

definition py_round :: "real \<Rightarrow> int" where
  "py_round x =
     (let f = \<lfloor>x\<rfloor>; r = x - of_int f
      in if r < 1/2 then f else if 1/2 < r then f + 1 else if even f then f else f + 1)"

definition np_clip :: "real \<Rightarrow> real \<Rightarrow> real \<Rightarrow> real" where
  "np_clip x lo hi = min (max x lo) hi"

text \<open>
  \<open>np.mean\<close>. On an empty sequence numpy yields \<open>nan\<close>, for which every comparison made by
  the source is false; the value \<open>0\<close> that HOL's division gives here makes the same
  comparisons false.
\<close>

definition np_mean :: "real list \<Rightarrow> real" where
  "np_mean xs = sum_list xs / real (length xs)"

text \<open>
  \<open>collections.deque(maxlen=n).append(x)\<close>: the element is added on the right and, when the
  length then exceeds \<open>maxlen\<close>, the leftmost element is discarded.
\<close>

definition deque_append :: "nat \<Rightarrow> 'a list \<Rightarrow> 'a \<Rightarrow> 'a list" where
  "deque_append maxlen xs x = (let ys = xs @ [x] in if maxlen < length ys then tl ys else ys)"

text \<open>\<open>d.get(k, default)\<close> on a dictionary.\<close>

definition dict_get :: "('k \<rightharpoonup> 'v) \<Rightarrow> 'k \<Rightarrow> 'v \<Rightarrow> 'v" where
  "dict_get d k dflt = (case d k of None \<Rightarrow> dflt | Some v \<Rightarrow> v)"

subsection \<open>Constants\<close>

definition HISTORY_BUFFER_SIZE :: nat where
  "HISTORY_BUFFER_SIZE = 43200"

definition ROLLING_WINDOW_SIZE :: nat where
  "ROLLING_WINDOW_SIZE = 5"

definition TEMP_SPIKE_THRESHOLD :: real where
  "TEMP_SPIKE_THRESHOLD = 3.0"

definition TEMP_SPIKE_WINDOW :: nat where
  "TEMP_SPIKE_WINDOW = 5"

definition LOG_DIR :: string where
  "LOG_DIR = ''historical_logs''"

subsection \<open>PM2.5 to AQI (\<open>_pm25_to_aqi\<close>)\<close>

definition breakpoints :: "(real \<times> real \<times> int \<times> int) list" where
  "breakpoints =
     [(0.0, 12.0, 0, 50), (12.1, 35.4, 51, 100), (35.5, 55.4, 101, 150),
      (55.5, 150.4, 151, 200), (150.5, 250.4, 201, 300), (250.5, 500.4, 301, 500)]"

text \<open>The \<open>for\<close> loop over the table; falling off its end is the final \<open>return 500\<close>.\<close>

fun aqi_lookup :: "(real \<times> real \<times> int \<times> int) list \<Rightarrow> real \<Rightarrow> int" where
  "aqi_lookup [] c = 500"
| "aqi_lookup ((low_c, high_c, low_i, high_i) # bps) c =
     (if low_c \<le> c \<and> c \<le> high_c
      then py_round ((of_int (high_i - low_i) / (high_c - low_c)) * (c - low_c) + of_int low_i)
      else aqi_lookup bps c)"

definition pm25_to_aqi :: "real option \<Rightarrow> int" where
  "pm25_to_aqi pm =
     (case pm of None \<Rightarrow> 0 | Some p \<Rightarrow> if p < 0 then 0 else aqi_lookup breakpoints p)"

text \<open>
  A value lies between two adjacent brackets when it is above the upper concentration of
  one row of the table and below the lower concentration of the next row.
\<close>

definition between_brackets :: "real \<Rightarrow> bool" where
  "between_brackets pm =
     list_ex (\<lambda>((l1, h1, a1, b1), (l2, h2, a2, b2)). h1 < pm \<and> pm < l2)
       (zip breakpoints (tl breakpoints))"

subsection \<open>FusionEngine (\<open>IAQProcessor\<close>)\<close>

type_synonym reading = "string \<rightharpoonup> real"

record iaq_processor =
  ewma_baseline :: "real option"
  gas_window :: "real list"

definition alpha :: real where
  "alpha = 0.2"

definition new_IAQProcessor :: iaq_processor where
  "new_IAQProcessor = \<lparr>ewma_baseline = None, gas_window = []\<rparr>"

text \<open>Lines 198-199: the deviation from the baseline and the VOC index before rounding.\<close>

definition voc_index_of :: "real \<Rightarrow> real \<Rightarrow> real" where
  "voc_index_of baseline smoothed_gas =
     (let deviation = max 0 (baseline - smoothed_gas)
      in min 500 (if baseline > 0 then (deviation / baseline) * 500 else 0))"

text \<open>
  \<open>IAQProcessor.process\<close>: the updated processor and the returned dictionary (\<open>{}\<close> is the
  empty map). \<open>pm25_aqi\<close>, \<open>fused_iaq\<close> and the two rounded values are Python integers,
  stored in the dictionary as numbers.
\<close>

definition process :: "iaq_processor \<Rightarrow> reading \<Rightarrow> iaq_processor \<times> reading" where
  "process self raw_data =
     (if raw_data ''gas_resistance'' = None \<or> raw_data ''pm25'' = None
         \<or> raw_data ''temperature'' = None \<or> raw_data ''humidity'' = None
      then (self, Map.empty)
      else
        let gas_raw = the (raw_data ''gas_resistance'');
            pm25 = the (raw_data ''pm25'');
            temp = the (raw_data ''temperature'');
            humidity = the (raw_data ''humidity'');
            window = deque_append ROLLING_WINDOW_SIZE (gas_window self) (np_clip gas_raw 10000 500000);
            smoothed_gas = np_mean window;
            baseline = (case ewma_baseline self of
                          None \<Rightarrow> smoothed_gas
                        | Some b \<Rightarrow> alpha * smoothed_gas + (1 - alpha) * b);
            deviation = max 0 (baseline - smoothed_gas);
            voc_index = voc_index_of baseline smoothed_gas;
            pm25_aqi = pm25_to_aqi (Some pm25);
            humidity_penalty = max 0 (humidity - 70) * 2;
            temp_penalty = (if temp < 18 then (18 - temp) * 2
                            else if temp > 26 then (temp - 26) * 2 else 0);
            fused_iaq = (voc_index * 0.5) + (of_int pm25_aqi * 0.5) + humidity_penalty + temp_penalty;
            fused_iaq' = min 500 (py_round fused_iaq);
            voc_ppb = (if baseline > 0 then (deviation / baseline) powr 1.5 * 1500 else 0);
            co2_equivalent = 400 + voc_ppb * 0.8 + pm25 * 1.5
        in (self\<lparr>ewma_baseline := Some baseline, gas_window := window\<rparr>,
            [''iaq'' \<mapsto> of_int fused_iaq', ''aqi'' \<mapsto> of_int pm25_aqi,
             ''voc_index'' \<mapsto> of_int (py_round voc_index),
             ''co2_equivalent'' \<mapsto> of_int (py_round co2_equivalent)]))"

text \<open>
  The fused score as the specification words it:
  \<open>min(500, round(0.5 voc_index + 0.5 pm25_aqi + humidity_penalty + temp_penalty))\<close> with
  \<open>humidity_penalty = max(0, humidity - 70) * 2\<close> and the two-sided temperature penalty.
\<close>

definition spec_humidity_penalty :: "real \<Rightarrow> real" where
  "spec_humidity_penalty humidity = max 0 (humidity - 70) * 2"

definition spec_temp_penalty :: "real \<Rightarrow> real" where
  "spec_temp_penalty t = (if t < 18 then (18 - t) * 2 else if t > 26 then (t - 26) * 2 else 0)"

definition spec_iaq :: "real \<Rightarrow> int \<Rightarrow> real \<Rightarrow> real \<Rightarrow> int" where
  "spec_iaq voc pm25_aqi humidity t =
     min 500 (py_round (0.5 * voc + 0.5 * of_int pm25_aqi
                        + spec_humidity_penalty humidity + spec_temp_penalty t))"

subsection \<open>AlertEngine (\<open>SmokeDetector\<close>, \<open>Buzzer\<close> and the alert globals)\<close>

datatype state_name = SAFE | WARNING | SMOKE | TEST

text \<open>
  One entry of the \<open>triggers\<close> list. The source appends a formatted string; the model keeps
  the reason and the number that the string shows.
\<close>

datatype trigger = PM25_reason real | VOC_Index_reason real | Gas_Drop_reason real
  | Temp_Spike_reason real

text \<open>
  The texts handed to \<open>queue_message\<close>, one constructor per message of the source, and
  the message kinds \<open>"info"\<close>, \<open>"alert"\<close> and \<open>"recovery"\<close>.
\<close>

datatype message =
    System_online
  | Smoke_alert_triggered "trigger list"
  | Conditions_returned_to_normal "trigger list"
  | IAQ_returned_to_normal "trigger list"
  | Smoke_detection_disabled
  | Alert_manually_dismissed
  | Test_alert_stopped
  | Test_of_the_alert_system

datatype kind = Info | Alert | Recovery

text \<open>
  \<open>user_settings\<close>: a dictionary; a field is \<open>None\<close> when its key is absent.
\<close>

record user_settings =
  enableSmokeDetection :: "bool option"
  emergencyAlert :: "bool option"
  alertThreshold :: "real option"
  logRetentionPeriod :: "string option"
  run_manual_cleanup :: "bool option"

definition truthy :: "bool option \<Rightarrow> bool" where
  "truthy v = (case v of None \<Rightarrow> False | Some b \<Rightarrow> b)"

text \<open>
  The globals \<open>alert_active\<close> and \<open>alert_state\<close>, the attributes of the one
  \<open>SmokeDetector\<close> (\<open>bot_queue\<close> is the message queue of \<open>self.bot\<close>, \<open>None\<close> when there is
  no bot) and of the one \<open>Buzzer\<close> (\<open>buzzer_siren\<close>: the stop flag is clear and the siren
  thread runs).
\<close>

record system =
  alert_active :: bool
  alert_state :: state_name
  bot_queue :: "(message \<times> kind) list option"
  temp_history :: "real list"
  gas_history :: "real list"
  last_alert_time :: real
  test_alert_active :: bool
  buzzer_is_setup :: bool
  buzzer_siren :: bool

definition alert_cooldown :: real where
  "alert_cooldown = 300"

definition new_SmokeDetector :: "(message \<times> kind) list option \<Rightarrow> bool \<Rightarrow> system" where
  "new_SmokeDetector bot_instance is_setup =
     \<lparr>alert_active = False, alert_state = SAFE,
      bot_queue = (case bot_instance of None \<Rightarrow> None | Some q \<Rightarrow> Some (q @ [(System_online, Info)])),
      temp_history = [], gas_history = [], last_alert_time = 0, test_alert_active = False,
      buzzer_is_setup = is_setup, buzzer_siren = False\<rparr>"

definition start_alert :: "system \<Rightarrow> system" where
  "start_alert s = (if \<not> buzzer_is_setup s then s else s\<lparr>buzzer_siren := True\<rparr>)"

definition stop_alert :: "system \<Rightarrow> system" where
  "stop_alert s = (if \<not> buzzer_is_setup s then s else s\<lparr>buzzer_siren := False\<rparr>)"

definition queue_message :: "message \<Rightarrow> kind \<Rightarrow> system \<Rightarrow> system" where
  "queue_message m k s =
     (case bot_queue s of None \<Rightarrow> s | Some q \<Rightarrow> s\<lparr>bot_queue := Some (q @ [(m, k)])\<rparr>)"

definition trigger_alert :: "user_settings \<Rightarrow> state_name \<Rightarrow> message \<Rightarrow> system \<Rightarrow> system" where
  "trigger_alert us state m s =
     (let s1 = queue_message m Alert (s\<lparr>alert_active := True, alert_state := state\<rparr>)
      in if truthy (emergencyAlert us) \<or> state = TEST then start_alert s1 else s1)"

definition clear_alert :: "message \<Rightarrow> system \<Rightarrow> system" where
  "clear_alert m s =
     stop_alert (queue_message m Recovery (s\<lparr>alert_active := False, alert_state := SAFE\<rparr>))"

text \<open>\<open>dismiss_alert\<close> and \<open>toggle_test\<close>; the returned status dictionaries are left out.\<close>

definition dismiss_alert :: "real \<Rightarrow> system \<Rightarrow> system" where
  "dismiss_alert now s =
     (if \<not> alert_active s then s
      else clear_alert Alert_manually_dismissed (s\<lparr>last_alert_time := now\<rparr>))"

definition toggle_test :: "user_settings \<Rightarrow> system \<Rightarrow> system" where
  "toggle_test us s =
     (if test_alert_active s
      then clear_alert Test_alert_stopped (s\<lparr>test_alert_active := False\<rparr>)
      else trigger_alert us TEST Test_of_the_alert_system (s\<lparr>test_alert_active := True\<rparr>))"

text \<open>
  Lines 255-269: the list \<open>triggers\<close>, from the reading and the two windows as they are
  after this cycle's samples were appended.
\<close>

definition gas_change_of :: "real list \<Rightarrow> real" where
  "gas_change_of gh = np_mean (take 2 gh) - np_mean (drop (length gh - 2) gh)"

definition triggers_of :: "reading \<Rightarrow> real list \<Rightarrow> real list \<Rightarrow> trigger list" where
  "triggers_of data th gh =
     (let pm_val = dict_get data ''pm25'' 0;
          voc_val = dict_get data ''voc_index'' 0;
          gas_change = gas_change_of gh;
          temp_spike = last th - hd th
      in (if pm_val > 100 then [PM25_reason pm_val] else [])
         @ (if voc_val > 250 \<or> gas_change > 25000
            then [VOC_Index_reason voc_val, Gas_Drop_reason gas_change] else [])
         @ (if temp_spike > TEMP_SPIKE_THRESHOLD then [Temp_Spike_reason temp_spike] else []))"

text \<open>
  \<open>SmokeDetector.check_conditions\<close>; \<open>now\<close> is the value that \<open>time.time()\<close> returns in
  this call.
\<close>

definition check_conditions :: "user_settings \<Rightarrow> real \<Rightarrow> reading \<Rightarrow> system \<Rightarrow> system" where
  "check_conditions us now data s =
     (if \<not> truthy (enableSmokeDetection us) then
        (if alert_active s \<and> alert_state s = SMOKE
         then clear_alert Smoke_detection_disabled s else s)
      else if test_alert_active s then s\<lparr>alert_active := True, alert_state := TEST\<rparr>
      else
        let current_temp = dict_get data ''temperature'' 0;
            current_gas = dict_get data ''gas_resistance'' 1000000;
            s1 = s\<lparr>temp_history := deque_append TEMP_SPIKE_WINDOW (temp_history s) current_temp,
                   gas_history := deque_append TEMP_SPIKE_WINDOW (gas_history s) current_gas\<rparr>
        in if length (temp_history s1) < TEMP_SPIKE_WINDOW then s1
           else
             let triggers = triggers_of data (temp_history s1) (gas_history s1);
                 trigger_count = length triggers;
                 s2 = (if trigger_count \<ge> 2 \<and> now - last_alert_time s1 > alert_cooldown then
                         (if \<not> alert_active s1
                          then (trigger_alert us SMOKE (Smoke_alert_triggered triggers) s1)
                                 \<lparr>last_alert_time := now\<rparr>
                          else s1)
                       else if trigger_count = 0 \<and> alert_active s1 then
                         (if alert_state s1 = SMOKE
                          then clear_alert (Conditions_returned_to_normal triggers) s1
                          else if alert_state s1 = WARNING
                          then clear_alert (IAQ_returned_to_normal triggers) s1
                          else s1)
                       else s1);
                 iaq = dict_get data ''iaq'' 0;
                 threshold = (case alertThreshold us of None \<Rightarrow> 150 | Some t \<Rightarrow> t)
             in if \<not> alert_active s2 \<and> iaq > threshold then
                  (if alert_state s2 \<noteq> WARNING then s2\<lparr>alert_state := WARNING\<rparr> else s2)
                else if \<not> alert_active s2 \<and> alert_state s2 = WARNING \<and> iaq < threshold
                then s2\<lparr>alert_state := SAFE\<rparr>
                else s2)"

text \<open>
  What one call reads besides the state: the settings, the clock and the reading. A run
  feeds a sequence of such inputs to \<open>check_conditions\<close>, one call after the other.
\<close>

type_synonym cycle_input = "user_settings \<times> real \<times> reading"

definition check_step :: "system \<Rightarrow> cycle_input \<Rightarrow> system" where
  "check_step s inp = (case inp of (us, now, data) \<Rightarrow> check_conditions us now data s)"

definition run_cycles :: "system \<Rightarrow> cycle_input list \<Rightarrow> system" where
  "run_cycles s inps = foldl check_step s inps"

text \<open>
  A cycle evaluates its triggers when smoke detection is enabled, the test override is
  off and the temperature window is full after this cycle's sample; \<open>trigger_count\<close> is
  then the length of the list \<open>triggers\<close>.
\<close>

definition evaluates_triggers :: "user_settings \<Rightarrow> system \<Rightarrow> bool" where
  "evaluates_triggers us s \<longleftrightarrow>
     truthy (enableSmokeDetection us) \<and> \<not> test_alert_active s
     \<and> TEMP_SPIKE_WINDOW \<le> length (deque_append TEMP_SPIKE_WINDOW (temp_history s) 0)"

definition trigger_count_of :: "reading \<Rightarrow> system \<Rightarrow> nat" where
  "trigger_count_of data s =
     length (triggers_of data
       (deque_append TEMP_SPIKE_WINDOW (temp_history s) (dict_get data ''temperature'' 0))
       (deque_append TEMP_SPIKE_WINDOW (gas_history s) (dict_get data ''gas_resistance'' 1000000)))"

definition alerts_queued :: "system \<Rightarrow> nat" where
  "alerts_queued s =
     (case bot_queue s of None \<Rightarrow> 0 | Some q \<Rightarrow> length (filter (\<lambda>(m, k). k = Alert) q))"

subsection \<open>AcquisitionLoop (\<open>continuous_sensor_reading\<close>) and the history buffer\<close>

definition get_iaq_level :: "real option \<Rightarrow> string" where
  "get_iaq_level score =
     (case score of
        None \<Rightarrow> ''Calculating...''
      | Some v \<Rightarrow>
          if v \<le> 50 then ''Good''
          else if v \<le> 100 then ''Moderate''
          else if v \<le> 150 then ''Unhealthy (SG)''
          else if v \<le> 200 then ''Unhealthy''
          else if v \<le> 300 then ''Very Unhealthy''
          else ''Hazardous'')"

text \<open>
  \<open>final_data_point\<close>: the numeric keys, and the four stamps added after
  \<open>check_conditions\<close> has run.
\<close>

record fused_reading =
  measurements :: reading
  stamp_alert_active :: bool
  stamp_state :: state_name
  iaq_level :: string
  pm25_level :: string

record monitor =
  processor :: iaq_processor
  detector :: system
  latest_sensor_data :: "fused_reading option"
  history_buffer :: "fused_reading list"

text \<open>
  One pass through the body of the \<open>while True\<close> loop after the two-second gate has
  opened. \<open>raw\<close> is what \<open>sensor.get_data()\<close> returned (\<open>None\<close> after a sensor error);
  \<open>if raw_data:\<close> is false for \<open>None\<close> and for the empty dictionary. \<open>ts\<close> and \<open>now\<close> are
  the two clock readings of the pass.
\<close>

definition acquisition_cycle ::
  "user_settings \<Rightarrow> real \<Rightarrow> real \<Rightarrow> reading option \<Rightarrow> monitor \<Rightarrow> monitor" where
  "acquisition_cycle us ts now raw st =
     (case raw of
        None \<Rightarrow> st
      | Some raw_data \<Rightarrow>
          if raw_data = Map.empty then st
          else
            let pc = process (processor st) raw_data;
                calculated_data = snd pc;
                final_data_point = (raw_data ++ calculated_data)(''timestamp'' \<mapsto> ts);
                d = check_conditions us now final_data_point (detector st);
                stamped = \<lparr>measurements = final_data_point,
                           stamp_alert_active = alert_active d,
                           stamp_state = alert_state d,
                           iaq_level = get_iaq_level (final_data_point ''iaq''),
                           pm25_level = get_iaq_level (final_data_point ''aqi'')\<rparr>
            in st\<lparr>processor := fst pc, detector := d,
                  latest_sensor_data := Some stamped,
                  history_buffer := deque_append HISTORY_BUFFER_SIZE (history_buffer st) stamped\<rparr>)"

text \<open>The history after a sequence of appends to the initially empty buffer.\<close>

definition history_after :: "'a list \<Rightarrow> 'a list" where
  "history_after xs = foldl (deque_append HISTORY_BUFFER_SIZE) [] xs"

subsection \<open>RetentionWorker (\<open>auto_maintenance_worker\<close>): strings, paths and dates\<close>

text \<open>
  Strings are ASCII byte strings. \<open>int(s)\<close> on a string: surrounding whitespace is
  stripped, one sign is allowed, and the rest must be decimal digits in which single
  underscores may separate digits; anything else raises \<open>ValueError\<close>, here \<open>None\<close>.
  (The interpreter's limit of 4300 digits is beyond any file name or setting met here.)
\<close>

definition is_space :: "char \<Rightarrow> bool" where
  "is_space c \<longleftrightarrow>
     c \<in> set [CHR '' '', CHR 0x09, CHR 0x0A, CHR 0x0B, CHR 0x0C, CHR 0x0D,
              CHR 0x1C, CHR 0x1D, CHR 0x1E, CHR 0x1F]"

definition is_digit :: "char \<Rightarrow> bool" where
  "is_digit c \<longleftrightarrow> c \<in> set ''0123456789''"

definition py_strip :: "string \<Rightarrow> string" where
  "py_strip s = rev (dropWhile is_space (rev (dropWhile is_space s)))"

fun digits_wellformed :: "string \<Rightarrow> bool" where
  "digits_wellformed [] = False"
| "digits_wellformed [c] = is_digit c"
| "digits_wellformed (c # d # cs) =
     (if is_digit c then digits_wellformed (d # cs)
      else c = CHR ''_'' \<and> is_digit d \<and> digits_wellformed (d # cs))"

definition digits_value :: "string \<Rightarrow> int" where
  "digits_value ds = foldl (\<lambda>a c. 10 * a + (int (of_char c) - 48)) 0 ds"

definition py_int :: "string \<Rightarrow> int option" where
  "py_int s =
     (let t = py_strip s;
          negative = (t \<noteq> [] \<and> hd t = CHR ''-'');
          body = (if t \<noteq> [] \<and> (hd t = CHR ''-'' \<or> hd t = CHR ''+'') then tl t else t)
      in if body \<noteq> [] \<and> is_digit (hd body) \<and> digits_wellformed body
         then Some ((if negative then - 1 else 1) * digits_value (filter is_digit body))
         else None)"

text \<open>\<open>s.replace(old, new)\<close> for a non-empty \<open>old\<close>: left to right, without overlaps.\<close>

function py_replace :: "string \<Rightarrow> string \<Rightarrow> string \<Rightarrow> string" where
  "py_replace old new s =
     (if s = [] \<or> old = [] then s
      else if prefix old s then new @ py_replace old new (drop (length old) s)
      else hd s # py_replace old new (tl s))"
  by pat_completeness auto
termination
  by (relation "measure (\<lambda>(old, new, s). length s)") auto

declare py_replace.simps [simp del]

text \<open>\<open>s.rfind(c)\<close> for a single character: the last index of \<open>c\<close>, or \<open>-1\<close>.\<close>

definition rfind :: "string \<Rightarrow> char \<Rightarrow> int" where
  "rfind s c =
     (if c \<in> set s then int (length s) - 1 - int (length (takeWhile (\<lambda>x. x \<noteq> c) (rev s)))
      else - 1)"

text \<open>
  \<open>os.path.splitext(p)[0]\<close>: the extension starts at the last dot, unless that dot is not
  after the last separator or only dots lie between the separator and it.
\<close>

definition splitext_root :: "string \<Rightarrow> string" where
  "splitext_root p =
     (let sepIndex = rfind p CHR ''/''; dotIndex = rfind p CHR ''.''
      in if dotIndex > sepIndex
            \<and> list_ex (\<lambda>c. c \<noteq> CHR ''.'')
                 (take (nat (dotIndex - (sepIndex + 1))) (drop (nat (sepIndex + 1)) p))
         then take (nat dotIndex) p
         else p)"

definition basename :: "string \<Rightarrow> string" where
  "basename p = drop (nat (rfind p CHR ''/'' + 1)) p"

definition dirname :: "string \<Rightarrow> string" where
  "dirname p =
     (let head = take (nat (rfind p CHR ''/'' + 1)) p
      in if head \<noteq> [] \<and> list_ex (\<lambda>c. c \<noteq> CHR ''/'') head
         then rev (dropWhile (\<lambda>c. c = CHR ''/'') (rev head))
         else head)"

text \<open>\<open>os.path.join(a, b)\<close> with two arguments.\<close>

definition path_join :: "string \<Rightarrow> string \<Rightarrow> string" where
  "path_join a b =
     (if prefix ''/'' b then b
      else if a = [] \<or> suffix ''/'' a then a @ b
      else a @ ''/'' @ b)"

text \<open>
  \<open>os.path.abspath(p)\<close> in the working directory \<open>cwd\<close>. The final \<open>normpath\<close> is the
  identity on the paths met here (a normalised working directory joined with \<open>LOG_DIR\<close>
  and with directory entry names) and is left out.
\<close>

definition abspath :: "string \<Rightarrow> string \<Rightarrow> string" where
  "abspath cwd p = (if prefix ''/'' p then p else path_join cwd p)"

text \<open>
  Dates. A \<open>date\<close> is represented by its proleptic Gregorian ordinal (day 1 is
  0001-01-01), the number on which the library defines date comparison and the
  subtraction of a \<open>timedelta\<close> of whole days. \<open>datetime(y, m, d)\<close> raises \<open>ValueError\<close>
  (here \<open>None\<close>) outside the calendar.
\<close>

definition is_leap :: "int \<Rightarrow> bool" where
  "is_leap y \<longleftrightarrow> y mod 4 = 0 \<and> (y mod 100 \<noteq> 0 \<or> y mod 400 = 0)"

definition days_in_month :: "int \<Rightarrow> int \<Rightarrow> int" where
  "days_in_month y m =
     (if m = 2 then (if is_leap y then 29 else 28)
      else if m = 4 \<or> m = 6 \<or> m = 9 \<or> m = 11 then 30 else 31)"

definition days_before_year :: "int \<Rightarrow> int" where
  "days_before_year y = (y - 1) * 365 + (y - 1) div 4 - (y - 1) div 100 + (y - 1) div 400"

definition days_before_month :: "int \<Rightarrow> int \<Rightarrow> int" where
  "days_before_month y m = sum_list (map (days_in_month y) [1..m - 1])"

definition MAXORDINAL :: int where
  "MAXORDINAL = 3652059"

definition py_date :: "int \<Rightarrow> int \<Rightarrow> int \<Rightarrow> int option" where
  "py_date y m d =
     (if 1 \<le> y \<and> y \<le> 9999 \<and> 1 \<le> m \<and> m \<le> 12 \<and> 1 \<le> d \<and> d \<le> days_in_month y m
      then Some (days_before_year y + days_before_month y m + d)
      else None)"

datatype error = OverflowError

text \<open>
  \<open>(now - timedelta(days=days)).date()\<close> for \<open>now\<close> on the day \<open>today\<close>:
  \<open>timedelta\<close> accepts at most 999999999 days, and the result must be a date of the
  calendar; otherwise \<open>OverflowError\<close> is raised.
\<close>

definition cutoff_date :: "int \<Rightarrow> int \<Rightarrow> error + int" where
  "cutoff_date today days =
     (if \<bar>days\<bar> > 999999999 then Inl OverflowError
      else if today - days < 1 \<or> today - days > MAXORDINAL then Inl OverflowError
      else Inr (today - days))"

subsection \<open>RetentionWorker: one run\<close>

text \<open>Lines 514-518: the date of a file, from its name and its directory.\<close>

definition file_date :: "string \<Rightarrow> string \<Rightarrow> int option" where
  "file_date dirpath filename =
     (let day_str = splitext_root (py_replace ''.csv'' [] (py_replace ''.csv.gz'' [] filename));
          month_str = basename dirpath;
          year_str = basename (dirname dirpath)
      in case py_int year_str of
           None \<Rightarrow> None
         | Some y \<Rightarrow>
             (case py_int month_str of
                None \<Rightarrow> None
              | Some m \<Rightarrow>
                  (case py_int day_str of
                     None \<Rightarrow> None
                   | Some d \<Rightarrow> py_date y m d)))"

text \<open>
  The body of the \<open>try\<close> for one file: what it did, or that it raised while parsing.
\<close>

datatype file_outcome = Removed string | Retained | Outside_root | Parse_failed

definition try_file :: "string \<Rightarrow> int \<Rightarrow> string \<Rightarrow> string \<Rightarrow> file_outcome" where
  "try_file cwd cutoff dirpath filename =
     (case file_date dirpath filename of
        None \<Rightarrow> Parse_failed
      | Some file_day \<Rightarrow>
          if file_day < cutoff then
            (let full_path = path_join dirpath filename
             in if \<not> prefix (abspath cwd LOG_DIR) (abspath cwd full_path) then Outside_root
                else Removed full_path)
          else Retained)"

text \<open>
  Modelled from the spec: the \<open>except\<close> clause that closes the per-file \<open>try\<close> lies beyond
  the end of the source text at hand. Sections 4.6 and 7 say that a file whose name does
  not parse is skipped and logged and that the enumeration continues; so the handler
  leaves the list of removed paths as it is.
\<close>

definition on_parse_error :: "string list \<Rightarrow> string list" where
  "on_parse_error removed = removed"

text \<open>
  The two nested \<open>for\<close> loops. The state is the list of paths given to \<open>os.remove\<close> so far;
  \<open>deleted_count\<close> is its length.
\<close>

fun clean_files :: "string \<Rightarrow> int \<Rightarrow> string \<Rightarrow> string list \<Rightarrow> string list \<Rightarrow> string list" where
  "clean_files cwd cutoff dirpath removed [] = removed"
| "clean_files cwd cutoff dirpath removed (filename # filenames) =
     (case try_file cwd cutoff dirpath filename of
        Removed full_path \<Rightarrow> clean_files cwd cutoff dirpath (removed @ [full_path]) filenames
      | Parse_failed \<Rightarrow> clean_files cwd cutoff dirpath (on_parse_error removed) filenames
      | Retained \<Rightarrow> clean_files cwd cutoff dirpath removed filenames
      | Outside_root \<Rightarrow> clean_files cwd cutoff dirpath removed filenames)"

type_synonym walk = "(string \<times> string list) list"

fun clean_walk :: "string \<Rightarrow> int \<Rightarrow> string list \<Rightarrow> walk \<Rightarrow> string list" where
  "clean_walk cwd cutoff removed [] = removed"
| "clean_walk cwd cutoff removed ((dirpath, filenames) # rest) =
     clean_walk cwd cutoff (clean_files cwd cutoff dirpath removed filenames) rest"

text \<open>Lines 499-503: the number of days, 90 when the setting does not parse.\<close>

definition retention_days :: "string \<Rightarrow> int" where
  "retention_days retention_period =
     (case py_int (butlast retention_period) of Some n \<Rightarrow> n | None \<Rightarrow> 90)"

text \<open>
  One pass through the body of the worker's \<open>while True\<close> loop on the day \<open>today\<close>, with
  \<open>tree\<close> what \<open>os.walk(LOG_DIR)\<close> enumerates: the settings after the manual-run flag was
  popped and the paths removed, or the exception that leaves the loop.
\<close>

definition auto_maintenance_run ::
  "string \<Rightarrow> int \<Rightarrow> user_settings \<Rightarrow> walk \<Rightarrow> error + (user_settings \<times> string list)" where
  "auto_maintenance_run cwd today us tree =
     (let retention_period = (case logRetentionPeriod us of None \<Rightarrow> ''90d'' | Some p \<Rightarrow> p);
          run_manual = truthy (run_manual_cleanup us);
          us' = us\<lparr>run_manual_cleanup := None\<rparr>
      in if retention_period = ''forever'' \<and> \<not> run_manual then Inr (us', [])
         else
           (case cutoff_date today (retention_days retention_period) of
              Inl e \<Rightarrow> Inl e
            | Inr cutoff \<Rightarrow> Inr (us', clean_walk cwd cutoff [] tree)))"

definition removed_paths :: "error + (user_settings \<times> string list) \<Rightarrow> string list" where
  "removed_paths r = (case r of Inl e \<Rightarrow> [] | Inr (us', removed) \<Rightarrow> removed)"

text \<open>
  What \<open>os.walk(LOG_DIR)\<close> yields: directories at or below \<open>LOG_DIR\<close>, written as \<open>LOG_DIR\<close>
  followed by separator-led components and without a trailing separator, and entry
  names, which are non-empty and hold no separator.
\<close>

definition walk_entry :: "string \<Rightarrow> string \<Rightarrow> bool" where
  "walk_entry dirpath f \<longleftrightarrow>
     (dirpath = LOG_DIR \<or> prefix (LOG_DIR @ ''/'') dirpath) \<and> \<not> suffix ''/'' dirpath
     \<and> f \<noteq> [] \<and> CHR ''/'' \<notin> set f"

definition walk_of_log_dir :: "walk \<Rightarrow> bool" where
  "walk_of_log_dir tree \<longleftrightarrow>
     list_all (\<lambda>(dirpath, filenames). list_all (walk_entry dirpath) filenames) tree"

text \<open>The files of a walk that carry a date before the cutoff, as paths, in walk order.\<close>

definition dated_before :: "int \<Rightarrow> walk \<Rightarrow> string list" where
  "dated_before cutoff tree =
     concat (map (\<lambda>(dirpath, filenames).
        map (path_join dirpath)
          (filter (\<lambda>f. case file_date dirpath f of None \<Rightarrow> False | Some d \<Rightarrow> d < cutoff)
             filenames)) tree)"

subsection \<open>Notions used to state the properties\<close>

text \<open>
  The clock readings of those cycles of a run in which the alert state changed to
  \<open>SMOKE\<close>, in order, and the last of them, which is \<open>last_alert_time\<close> of the start
  state when there is none.
\<close>

fun smoke_trigger_times :: "system \<Rightarrow> cycle_input list \<Rightarrow> real list" where
  "smoke_trigger_times s [] = []"
| "smoke_trigger_times s (inp # rest) =
     (let s' = check_step s inp
      in (if alert_state s \<noteq> SMOKE \<and> alert_state s' = SMOKE then [fst (snd inp)] else [])
         @ smoke_trigger_times s' rest)"

definition last_smoke_trigger_time :: "system \<Rightarrow> cycle_input list \<Rightarrow> real" where
  "last_smoke_trigger_time s inps =
     (case rev (smoke_trigger_times s inps) of [] \<Rightarrow> last_alert_time s | t # ts \<Rightarrow> t)"

definition smoke_is_active :: "system \<Rightarrow> bool" where
  "smoke_is_active s \<longleftrightarrow> (alert_state s = SMOKE \<longrightarrow> alert_active s)"

text \<open>The two reasons that the combined VOC / gas-drop condition appends.\<close>

definition combined_reason :: "trigger \<Rightarrow> bool" where
  "combined_reason t =
     (case t of VOC_Index_reason v \<Rightarrow> True | Gas_Drop_reason g \<Rightarrow> True | _ \<Rightarrow> False)"

subsection \<open>Example inputs\<close>

text \<open>
  The settings with which the module starts, three readings, and the detector after four
  calm cycles from its initial state.
\<close>

definition default_settings :: user_settings where
  "default_settings =
     \<lparr>enableSmokeDetection = Some True, emergencyAlert = Some False,
      alertThreshold = Some 150, logRetentionPeriod = Some ''90d'',
      run_manual_cleanup = None\<rparr>"

definition calm_reading :: reading where
  "calm_reading =
     [''temperature'' \<mapsto> 22, ''gas_resistance'' \<mapsto> 100000, ''pm25'' \<mapsto> 5,
      ''voc_index'' \<mapsto> 0, ''iaq'' \<mapsto> 10]"

definition smoky_reading :: reading where
  "smoky_reading =
     [''temperature'' \<mapsto> 26, ''gas_resistance'' \<mapsto> 70000, ''pm25'' \<mapsto> 150,
      ''voc_index'' \<mapsto> 260, ''iaq'' \<mapsto> 205]"

definition gas_drop_reading :: reading where
  "gas_drop_reading =
     [''temperature'' \<mapsto> 22, ''gas_resistance'' \<mapsto> 40000, ''pm25'' \<mapsto> 5,
      ''voc_index'' \<mapsto> 0, ''iaq'' \<mapsto> 10]"

text \<open>
  A reading of the gas sensor alone (no particulate sensor), the monitor at start-up, and
  the monitor after four such readings.
\<close>

definition bme_only_reading :: "real \<Rightarrow> reading" where
  "bme_only_reading gas =
     [''temperature'' \<mapsto> 22, ''humidity'' \<mapsto> 40, ''pressure'' \<mapsto> 1000,
      ''gas_resistance'' \<mapsto> gas]"

definition warm_humid_reading :: reading where
  "warm_humid_reading =
     [''temperature'' \<mapsto> 30, ''humidity'' \<mapsto> 80, ''pressure'' \<mapsto> 1000,
      ''gas_resistance'' \<mapsto> 100000, ''pm1'' \<mapsto> 30, ''pm25'' \<mapsto> 50, ''pm10'' \<mapsto> 60]"

definition initial_monitor :: monitor where
  "initial_monitor =
     \<lparr>processor = new_IAQProcessor, detector = new_SmokeDetector (Some []) True,
      latest_sensor_data = None, history_buffer = []\<rparr>"

definition after_four_bme_cycles :: monitor where
  "after_four_bme_cycles =
     acquisition_cycle default_settings 1006 1006 (Some (bme_only_reading 100000))
       (acquisition_cycle default_settings 1004 1004 (Some (bme_only_reading 100000))
         (acquisition_cycle default_settings 1002 1002 (Some (bme_only_reading 100000))
           (acquisition_cycle default_settings 1000 1000 (Some (bme_only_reading 100000))
              initial_monitor)))"

text \<open>
  A log tree with a file dated 2024-03-31, a file that carries no date and a file dated
  2024-04-02; the same tree without the undated file; settings that keep logs forever
  and request a manual clean-up.
\<close>

definition example_tree :: walk where
  "example_tree =
     [(''historical_logs/2024/03'', [''31.csv'', ''notes.txt'']),
      (''historical_logs/2024/04'', [''02.csv''])]"

definition dated_tree :: walk where
  "dated_tree =
     [(''historical_logs/2024/03'', [''31.csv'']), (''historical_logs/2024/04'', [''02.csv''])]"

definition forever_manual_settings :: user_settings where
  "forever_manual_settings =
     \<lparr>enableSmokeDetection = Some True, emergencyAlert = Some False,
      alertThreshold = Some 150, logRetentionPeriod = Some ''forever'',
      run_manual_cleanup = Some True\<rparr>"

definition warmed_up :: system where
  "warmed_up =
     run_cycles (new_SmokeDetector (Some []) True)
       [(default_settings, 1000, calm_reading), (default_settings, 1002, calm_reading),
        (default_settings, 1004, calm_reading), (default_settings, 1006, calm_reading)]"

section \<open>Properties\<close>

subsection \<open>PM2.5 to AQI\<close>

lemma pm25_to_aqi_negative: "p < 0 \<Longrightarrow> pm25_to_aqi (Some p) = 0"
  by (simp add: pm25_to_aqi_def)

lemma pm25_to_aqi_above_top: "500.4 < p \<Longrightarrow> pm25_to_aqi (Some p) = 500"
  by (simp add: pm25_to_aqi_def breakpoints_def)

lemma pm25_to_aqi_12: "pm25_to_aqi (Some 12.0) = 50"
  by (simp add: pm25_to_aqi_def breakpoints_def py_round_def)

lemma pm25_to_aqi_35: "pm25_to_aqi (Some 35.4) = 100"
  by (simp add: pm25_to_aqi_def breakpoints_def py_round_def)

lemma pm25_to_aqi_50: "pm25_to_aqi (Some 50.0) = 137"
  by (simp add: pm25_to_aqi_def breakpoints_def py_round_def)

lemma pm25_to_aqi_0: "pm25_to_aqi (Some 0) = 0"
  by (simp add: pm25_to_aqi_def breakpoints_def py_round_def)

text \<open>
  Claim C3. The conversion is a function of its argument alone, and on the six inputs of
  the specification it gives \<open>f(12.0) = 50\<close>, \<open>f(35.4) = 100\<close>, \<open>f(50.0) = 137\<close>,
  \<open>f(0) = 0\<close>, \<open>f(600) = 500\<close> and \<open>f(-5) = 0\<close>; every negative input maps to 0 and every
  input above the top bracket to 500.
\<close>

theorem pm25_to_aqi_values:
  "pm25_to_aqi (Some 12.0) = 50 \<and> pm25_to_aqi (Some 35.4) = 100
   \<and> pm25_to_aqi (Some 50.0) = 137 \<and> pm25_to_aqi (Some 0) = 0
   \<and> pm25_to_aqi (Some 600) = 500 \<and> pm25_to_aqi (Some (- 5)) = 0
   \<and> (\<forall>p. p < 0 \<longrightarrow> pm25_to_aqi (Some p) = 0)
   \<and> (\<forall>p. 500.4 < p \<longrightarrow> pm25_to_aqi (Some p) = 500)"
  using pm25_to_aqi_12 pm25_to_aqi_35 pm25_to_aqi_50 pm25_to_aqi_0
  by (simp add: pm25_to_aqi_negative pm25_to_aqi_above_top)

theorem pm25_to_aqi_values_witness:
  "(- 7 :: real) < 0 \<and> pm25_to_aqi (Some (- 7)) = 0
   \<and> (500.4 :: real) < 1000 \<and> pm25_to_aqi (Some 1000) = 500"
  using pm25_to_aqi_values by simp

lemma between_brackets_iff:
  "between_brackets pm \<longleftrightarrow>
     (12.0 < pm \<and> pm < 12.1) \<or> (35.4 < pm \<and> pm < 35.5) \<or> (55.4 < pm \<and> pm < 55.5)
     \<or> (150.4 < pm \<and> pm < 150.5) \<or> (250.4 < pm \<and> pm < 250.5)"
  by (simp add: between_brackets_def breakpoints_def)

lemma aqi_lookup_gap:
  assumes "between_brackets pm"
  shows "aqi_lookup breakpoints pm = 500" and "0 \<le> pm"
  using assms unfolding between_brackets_iff breakpoints_def by auto

text \<open>
  Claim C9. A PM2.5 value strictly between two adjacent brackets of the table (such as
  \<open>12.0 < pm < 12.1\<close> or \<open>35.4 < pm < 35.5\<close>) matches no bracket and is converted to
  500, the value that inputs above the top bracket get.
\<close>

theorem between_brackets_gives_500:
  assumes "between_brackets pm"
  shows "pm25_to_aqi (Some pm) = 500
         \<and> (\<forall>p. 500.4 < p \<longrightarrow> pm25_to_aqi (Some p) = pm25_to_aqi (Some pm))"
proof -
  have "pm25_to_aqi (Some pm) = 500"
    using aqi_lookup_gap [OF assms] by (simp add: pm25_to_aqi_def)
  then show ?thesis by (simp add: pm25_to_aqi_above_top)
qed

theorem between_brackets_gives_500_witness:
  "between_brackets 12.05 \<and> pm25_to_aqi (Some 12.05) = 500
   \<and> between_brackets 35.45 \<and> pm25_to_aqi (Some 35.45) = 500"
proof -
  have a: "between_brackets 12.05" and b: "between_brackets 35.45"
    by (simp_all add: between_brackets_iff)
  from between_brackets_gives_500 [OF a] between_brackets_gives_500 [OF b] a b
  show ?thesis by simp
qed

subsection \<open>The history buffer\<close>

lemma deque_append_drop:
  "length xs \<le> n \<Longrightarrow> deque_append n xs x = drop (Suc (length xs) - n) (xs @ [x])"
proof (cases "length xs < n")
  case True
  then show ?thesis by (simp add: deque_append_def)
next
  case False
  assume "length xs \<le> n"
  with False have eq: "length xs = n" by simp
  then have "Suc (length xs) - n = 1" by simp
  moreover have "tl (xs @ [x]) = drop 1 (xs @ [x])" by (cases xs) simp_all
  ultimately show ?thesis using eq by (simp add: deque_append_def del: drop_append)
qed

lemma foldl_deque_append:
  "foldl (deque_append n) [] xs = drop (length xs - n) xs"
proof (induction xs rule: rev_induct)
  case Nil
  then show ?case by simp
next
  case (snoc x xs)
  let ?r = "drop (length xs - n) xs"
  have len: "length ?r \<le> n" by simp
  have "foldl (deque_append n) [] (xs @ [x]) = deque_append n ?r x"
    using snoc by simp
  also have "\<dots> = drop (Suc (length ?r) - n) (?r @ [x])"
    by (rule deque_append_drop [OF len])
  also have "?r @ [x] = drop (length xs - n) (xs @ [x])" by simp
  also have "drop (Suc (length ?r) - n) (drop (length xs - n) (xs @ [x]))
      = drop (length (xs @ [x]) - n) (xs @ [x])"
    by (cases "length xs < n") (simp_all add: Suc_diff_le del: drop_append)
  finally show ?case .
qed

text \<open>
  Claim C6. The history buffer never holds more than \<open>C = 43200\<close> entries; after \<open>C + k\<close>
  appends its length is exactly \<open>C\<close>, the oldest \<open>k\<close> entries are gone, and the others
  are there in the order in which they were appended.
\<close>

theorem history_buffer_capacity:
  "HISTORY_BUFFER_SIZE = 43200 \<and> length (history_after xs) \<le> HISTORY_BUFFER_SIZE
   \<and> (length xs = HISTORY_BUFFER_SIZE + k \<longrightarrow>
        length (history_after xs) = HISTORY_BUFFER_SIZE \<and> history_after xs = drop k xs)"
  by (simp add: history_after_def foldl_deque_append HISTORY_BUFFER_SIZE_def)

theorem history_buffer_capacity_witness:
  "length (map int [0..<43203]) = HISTORY_BUFFER_SIZE + 3
   \<and> length (history_after (map int [0..<43203])) = HISTORY_BUFFER_SIZE
   \<and> history_after (map int [0..<43203]) = drop 3 (map int [0..<43203])"
proof -
  have h: "length (map int [0..<43203]) = HISTORY_BUFFER_SIZE + 3"
    by (simp add: HISTORY_BUFFER_SIZE_def)
  from history_buffer_capacity [of "map int [0..<43203]" 3] h show ?thesis by blast
qed

subsection \<open>AlertEngine\<close>

lemma length_deque_append:
  "length (deque_append n xs x) = (if n < Suc (length xs) then length xs else Suc (length xs))"
  by (simp add: deque_append_def)

lemma queue_message_fields [simp]:
  "alert_state (queue_message m k s) = alert_state s"
  "alert_active (queue_message m k s) = alert_active s"
  "last_alert_time (queue_message m k s) = last_alert_time s"
  "test_alert_active (queue_message m k s) = test_alert_active s"
  "temp_history (queue_message m k s) = temp_history s"
  "gas_history (queue_message m k s) = gas_history s"
  "buzzer_is_setup (queue_message m k s) = buzzer_is_setup s"
  by (simp_all add: queue_message_def split: option.splits)

lemma start_alert_fields [simp]:
  "alert_state (start_alert s) = alert_state s"
  "alert_active (start_alert s) = alert_active s"
  "last_alert_time (start_alert s) = last_alert_time s"
  "test_alert_active (start_alert s) = test_alert_active s"
  "temp_history (start_alert s) = temp_history s"
  "gas_history (start_alert s) = gas_history s"
  "bot_queue (start_alert s) = bot_queue s"
  by (simp_all add: start_alert_def)

lemma stop_alert_fields [simp]:
  "alert_state (stop_alert s) = alert_state s"
  "alert_active (stop_alert s) = alert_active s"
  "last_alert_time (stop_alert s) = last_alert_time s"
  "test_alert_active (stop_alert s) = test_alert_active s"
  "temp_history (stop_alert s) = temp_history s"
  "gas_history (stop_alert s) = gas_history s"
  "bot_queue (stop_alert s) = bot_queue s"
  by (simp_all add: stop_alert_def)

lemma trigger_alert_fields [simp]:
  "alert_state (trigger_alert us st m s) = st"
  "alert_active (trigger_alert us st m s) = True"
  "last_alert_time (trigger_alert us st m s) = last_alert_time s"
  "test_alert_active (trigger_alert us st m s) = test_alert_active s"
  "temp_history (trigger_alert us st m s) = temp_history s"
  "gas_history (trigger_alert us st m s) = gas_history s"
  by (simp_all add: trigger_alert_def Let_def)

lemma clear_alert_fields [simp]:
  "alert_state (clear_alert m s) = SAFE"
  "alert_active (clear_alert m s) = False"
  "last_alert_time (clear_alert m s) = last_alert_time s"
  "test_alert_active (clear_alert m s) = test_alert_active s"
  "temp_history (clear_alert m s) = temp_history s"
  "gas_history (clear_alert m s) = gas_history s"
  by (simp_all add: clear_alert_def)

lemma bot_queue_trigger_alert:
  "bot_queue s = Some q \<Longrightarrow> bot_queue (trigger_alert us st m s) = Some (q @ [(m, Alert)])"
  by (simp add: trigger_alert_def queue_message_def Let_def)

text \<open>One call: the only way into \<open>SMOKE\<close>.\<close>

lemma smoke_transition_step:
  assumes "alert_state (check_conditions us now data s) = SMOKE" and "alert_state s \<noteq> SMOKE"
  shows "evaluates_triggers us s \<and> 2 \<le> trigger_count_of data s
         \<and> now - last_alert_time s > alert_cooldown \<and> \<not> alert_active s"
  using assms
  by (auto simp add: check_conditions_def Let_def evaluates_triggers_def trigger_count_of_def
        length_deque_append split: if_splits)

lemma smoke_fires:
  assumes "evaluates_triggers us s" "2 \<le> trigger_count_of data s" "\<not> alert_active s"
    "now - last_alert_time s > alert_cooldown"
  shows "alert_state (check_conditions us now data s) = SMOKE"
    and "alert_active (check_conditions us now data s)"
    and "last_alert_time (check_conditions us now data s) = now"
    and "test_alert_active (check_conditions us now data s) = test_alert_active s"
    and "bot_queue s = Some q \<Longrightarrow>
           \<exists>m. bot_queue (check_conditions us now data s) = Some (q @ [(m, Alert)])"
    and "TEMP_SPIKE_WINDOW \<le> length (temp_history (check_conditions us now data s))"
  using assms
  by (auto simp add: check_conditions_def Let_def evaluates_triggers_def trigger_count_of_def
        length_deque_append bot_queue_trigger_alert split: if_splits)


text \<open>
  In every state that calls of \<open>check_conditions\<close> reach, \<open>SMOKE\<close> comes with
  \<open>alert_active\<close>, and \<open>last_alert_time\<close> is the time of the last change to \<open>SMOKE\<close>.
\<close>

lemma check_conditions_keeps_smoke_is_active:
  "smoke_is_active s \<Longrightarrow> smoke_is_active (check_conditions us now data s)"
  by (auto simp add: smoke_is_active_def check_conditions_def Let_def split: if_splits)

lemma check_conditions_last_alert_time:
  "smoke_is_active s \<Longrightarrow>
   last_alert_time (check_conditions us now data s) =
     (if alert_state s \<noteq> SMOKE \<and> alert_state (check_conditions us now data s) = SMOKE
      then now else last_alert_time s)"
  by (auto simp add: smoke_is_active_def check_conditions_def Let_def split: if_splits)

lemma run_cycles_last_alert_time:
  "smoke_is_active s \<Longrightarrow> last_alert_time (run_cycles s inps) = last_smoke_trigger_time s inps"
proof (induction inps arbitrary: s)
  case Nil
  then show ?case by (simp add: run_cycles_def last_smoke_trigger_time_def)
next
  case (Cons inp inps)
  obtain us now data where inp: "inp = (us, now, data)" by (cases inp) auto
  let ?s' = "check_conditions us now data s"
  have inv: "smoke_is_active ?s'"
    using Cons.prems by (rule check_conditions_keeps_smoke_is_active)
  have "last_alert_time (run_cycles s (inp # inps)) = last_alert_time (run_cycles ?s' inps)"
    by (simp add: run_cycles_def check_step_def inp)
  also have "\<dots> = last_smoke_trigger_time ?s' inps"
    by (rule Cons.IH [OF inv])
  also have "\<dots> = last_smoke_trigger_time s (inp # inps)"
    using check_conditions_last_alert_time [OF Cons.prems, of us now data]
    by (simp add: last_smoke_trigger_time_def inp check_step_def Let_def split: list.splits)
  finally show ?case .
qed

lemma new_SmokeDetector_smoke_is_active: "smoke_is_active (new_SmokeDetector b u)"
  by (simp add: smoke_is_active_def new_SmokeDetector_def)

text \<open>Evaluation of the example run.\<close>

lemmas alert_eval =
  run_cycles_def check_step_def check_conditions_def new_SmokeDetector_def
  default_settings_def calm_reading_def smoky_reading_def gas_drop_reading_def truthy_def
  dict_get_def deque_append_def TEMP_SPIKE_WINDOW_def triggers_of_def gas_change_of_def
  np_mean_def TEMP_SPIKE_THRESHOLD_def alert_cooldown_def trigger_alert_def clear_alert_def
  queue_message_def start_alert_def stop_alert_def Let_def

lemma warmed_up_eq:
  "warmed_up =
     \<lparr>alert_active = False, alert_state = SAFE, bot_queue = Some [(System_online, Info)],
      temp_history = [22, 22, 22, 22], gas_history = [100000, 100000, 100000, 100000],
      last_alert_time = 0, test_alert_active = False,
      buzzer_is_setup = True, buzzer_siren = False\<rparr>"
  unfolding warmed_up_def by (simp add: alert_eval)

lemma smoky_cycle_eq:
  "check_conditions default_settings 1008 smoky_reading warmed_up =
     \<lparr>alert_active = True, alert_state = SMOKE,
      bot_queue = Some [(System_online, Info),
        (Smoke_alert_triggered [PM25_reason 150, VOC_Index_reason 260, Gas_Drop_reason 15000,
           Temp_Spike_reason 4], Alert)],
      temp_history = [22, 22, 22, 22, 26],
      gas_history = [100000, 100000, 100000, 100000, 70000],
      last_alert_time = 1008, test_alert_active = False,
      buzzer_is_setup = True, buzzer_siren = False\<rparr>"
  unfolding warmed_up_eq by (simp add: alert_eval)

lemma warmed_up_evaluates: "evaluates_triggers default_settings warmed_up"
  unfolding warmed_up_eq by (simp add: evaluates_triggers_def alert_eval)


lemma smoky_count_again:
  "trigger_count_of smoky_reading (check_conditions default_settings 1008 smoky_reading warmed_up) = 4"
  unfolding smoky_cycle_eq by (simp add: trigger_count_of_def alert_eval)

lemma gas_drop_count: "trigger_count_of gas_drop_reading warmed_up = 2"
  unfolding warmed_up_eq by (simp add: trigger_count_of_def alert_eval)

text \<open>
  Claim C1. Along every sequence of calls of \<open>check_conditions\<close> from the initial state,
  the alert state changes to \<open>SMOKE\<close> only in a cycle that evaluates its triggers with
  \<open>trigger_count \<ge> 2\<close>, more than 300 seconds after the recorded time of the last change
  to \<open>SMOKE\<close>, and with \<open>alert_active\<close> not set; so it never becomes \<open>SMOKE\<close> in a cycle
  whose \<open>trigger_count\<close> is below 2.
\<close>

theorem smoke_only_with_two_triggers:
  assumes "s = run_cycles (new_SmokeDetector bot_instance is_setup) inps"
    and "alert_state s \<noteq> SMOKE"
    and "alert_state (check_conditions us now data s) = SMOKE"
  shows "evaluates_triggers us s \<and> 2 \<le> trigger_count_of data s
         \<and> now - last_alert_time s > 300 \<and> \<not> alert_active s
         \<and> last_alert_time s
             = last_smoke_trigger_time (new_SmokeDetector bot_instance is_setup) inps"
proof -
  have "evaluates_triggers us s \<and> 2 \<le> trigger_count_of data s
         \<and> now - last_alert_time s > alert_cooldown \<and> \<not> alert_active s"
    using assms(3) assms(2) by (rule smoke_transition_step)
  moreover have "last_alert_time s
      = last_smoke_trigger_time (new_SmokeDetector bot_instance is_setup) inps"
    unfolding assms(1)
    by (rule run_cycles_last_alert_time [OF new_SmokeDetector_smoke_is_active])
  ultimately show ?thesis by (simp add: alert_cooldown_def)
qed

theorem smoke_only_with_two_triggers_witness:
  "alert_state warmed_up \<noteq> SMOKE
   \<and> alert_state (check_conditions default_settings 1008 smoky_reading warmed_up) = SMOKE
   \<and> evaluates_triggers default_settings warmed_up
   \<and> 2 \<le> trigger_count_of smoky_reading warmed_up
   \<and> 1008 - last_alert_time warmed_up > 300 \<and> \<not> alert_active warmed_up"
proof -
  have h2: "alert_state warmed_up \<noteq> SMOKE" by (simp add: warmed_up_eq)
  have h3: "alert_state (check_conditions default_settings 1008 smoky_reading warmed_up) = SMOKE"
    by (simp add: smoky_cycle_eq)
  from smoke_only_with_two_triggers [OF warmed_up_def h2 h3] h2 h3 show ?thesis by simp
qed


lemma alerts_queued_updates [simp]:
  "alerts_queued (s\<lparr>alert_state := a\<rparr>) = alerts_queued s"
  "alerts_queued (s\<lparr>alert_active := b\<rparr>) = alerts_queued s"
  "alerts_queued (s\<lparr>temp_history := th\<rparr>) = alerts_queued s"
  "alerts_queued (s\<lparr>gas_history := gh\<rparr>) = alerts_queued s"
  by (simp_all add: alerts_queued_def)





text \<open>Evaluation of the example: a calm cycle and a second smoky cycle after the alert.\<close>

lemma calm_after_smoke_eq:
  "run_cycles (check_conditions default_settings 1008 smoky_reading warmed_up)
     [(default_settings, 1010, calm_reading)] =
     \<lparr>alert_active = False, alert_state = SAFE,
      bot_queue = Some [(System_online, Info),
        (Smoke_alert_triggered [PM25_reason 150, VOC_Index_reason 260, Gas_Drop_reason 15000,
           Temp_Spike_reason 4], Alert),
        (Conditions_returned_to_normal [], Recovery)],
      temp_history = [22, 22, 22, 26, 22],
      gas_history = [100000, 100000, 100000, 70000, 100000],
      last_alert_time = 1008, test_alert_active = False,
      buzzer_is_setup = True, buzzer_siren = False\<rparr>"
  unfolding smoky_cycle_eq by (simp add: alert_eval)




text \<open>
  The same three cycles with the last one 392 seconds after the alert instead of 10: the
  cooldown has run out and the state changes to \<open>SMOKE\<close> a second time. The 300 seconds
  are what keeps the second event of the claim from raising an alert.
\<close>

lemma after_cooldown_smoke_again:
  "smoke_trigger_times warmed_up
     [(default_settings, 1008, smoky_reading), (default_settings, 1010, calm_reading),
      (default_settings, 1400, smoky_reading)] = [1008, 1400]"
  using calm_after_smoke_eq
  by (simp add: check_step_def smoky_cycle_eq warmed_up_eq run_cycles_def)
     (simp add: alert_eval)



text \<open>
  Claim C10. When the combined condition (VOC index above 250, or gas drop above 25000)
  holds, it appends exactly two reasons, so \<open>trigger_count \<ge> 2\<close> whatever the other two
  conditions say, and the condition alone passes the two-trigger gate: from a state
  without \<open>alert_active\<close> and with the cooldown elapsed the cycle ends in \<open>SMOKE\<close>.
\<close>

theorem combined_condition_two_reasons:
  assumes "th = deque_append TEMP_SPIKE_WINDOW (temp_history s) (dict_get data ''temperature'' 0)"
    and "gh = deque_append TEMP_SPIKE_WINDOW (gas_history s)
                (dict_get data ''gas_resistance'' 1000000)"
    and "dict_get data ''voc_index'' 0 > 250 \<or> gas_change_of gh > 25000"
  shows "filter combined_reason (triggers_of data th gh)
           = [VOC_Index_reason (dict_get data ''voc_index'' 0), Gas_Drop_reason (gas_change_of gh)]
         \<and> 2 \<le> trigger_count_of data s
         \<and> (evaluates_triggers us s \<and> \<not> alert_active s \<and> now - last_alert_time s > 300
              \<longrightarrow> alert_state (check_conditions us now data s) = SMOKE)"
proof -
  have a: "filter combined_reason (triggers_of data th gh)
           = [VOC_Index_reason (dict_get data ''voc_index'' 0), Gas_Drop_reason (gas_change_of gh)]"
    using assms(3) by (simp add: triggers_of_def Let_def combined_reason_def)
  have "length (filter combined_reason (triggers_of data th gh)) \<le> length (triggers_of data th gh)"
    by (rule length_filter_le)
  then have "2 \<le> length (triggers_of data th gh)"
    unfolding a by simp
  then have b: "2 \<le> trigger_count_of data s"
    unfolding trigger_count_of_def assms(1) assms(2) .
  have c: "evaluates_triggers us s \<and> \<not> alert_active s \<and> now - last_alert_time s > 300
              \<longrightarrow> alert_state (check_conditions us now data s) = SMOKE"
    using smoke_fires(1) [of us s data now] b by (simp add: alert_cooldown_def)
  show ?thesis using a b c by blast
qed

theorem combined_condition_two_reasons_witness:
  "gas_change_of (deque_append TEMP_SPIKE_WINDOW (gas_history warmed_up)
       (dict_get gas_drop_reading ''gas_resistance'' 1000000)) > 25000
   \<and> \<not> dict_get gas_drop_reading ''pm25'' 0 > 100
   \<and> trigger_count_of gas_drop_reading warmed_up = 2
   \<and> evaluates_triggers default_settings warmed_up \<and> \<not> alert_active warmed_up
   \<and> 1008 - last_alert_time warmed_up > 300
   \<and> alert_state (check_conditions default_settings 1008 gas_drop_reading warmed_up) = SMOKE"
proof -
  have g: "gas_change_of (deque_append TEMP_SPIKE_WINDOW (gas_history warmed_up)
       (dict_get gas_drop_reading ''gas_resistance'' 1000000)) > 25000"
    unfolding warmed_up_eq by (simp add: alert_eval)
  have p: "\<not> dict_get gas_drop_reading ''pm25'' 0 > 100"
    by (simp add: gas_drop_reading_def dict_get_def)
  have h4: "\<not> alert_active warmed_up" and h5: "1008 - last_alert_time warmed_up > 300"
    by (simp_all add: warmed_up_eq)
  from combined_condition_two_reasons [OF refl refl disjI2 [OF g],
      of default_settings 1008]
    g p gas_drop_count warmed_up_evaluates h4 h5
  show ?thesis by simp
qed

subsection \<open>FusionEngine\<close>

lemma py_round_nonneg: "0 \<le> x \<Longrightarrow> 0 \<le> py_round x"
  by (simp add: py_round_def Let_def)

lemma aqi_lookup_nonneg: "0 \<le> c \<Longrightarrow> 0 \<le> aqi_lookup breakpoints c"
  by (simp add: breakpoints_def py_round_nonneg)

lemma pm25_to_aqi_nonneg: "0 \<le> pm25_to_aqi pm"
  by (simp add: pm25_to_aqi_def aqi_lookup_nonneg split: option.splits)

lemma voc_index_of_range: "0 \<le> voc_index_of b g \<and> voc_index_of b g \<le> 500"
  by (simp add: voc_index_of_def Let_def)

lemma spec_penalties_nonneg: "0 \<le> spec_humidity_penalty h" "0 \<le> spec_temp_penalty t"
  by (simp_all add: spec_humidity_penalty_def spec_temp_penalty_def)

lemma spec_iaq_range:
  assumes "0 \<le> voc" and "0 \<le> a"
  shows "0 \<le> spec_iaq voc a h t \<and> spec_iaq voc a h t \<le> 500"
proof -
  have "0 \<le> 0.5 * voc + 0.5 * of_int a + spec_humidity_penalty h + spec_temp_penalty t"
    using assms spec_penalties_nonneg(1) [of h] spec_penalties_nonneg(2) [of t] by simp
  then have "0 \<le> py_round (0.5 * voc + 0.5 * of_int a + spec_humidity_penalty h
      + spec_temp_penalty t)"
    by (rule py_round_nonneg)
  then show ?thesis by (simp add: spec_iaq_def)
qed

lemma process_iaq:
  assumes "raw_data ''gas_resistance'' = Some gas_raw" and "raw_data ''pm25'' = Some pm25"
    and "raw_data ''temperature'' = Some temp" and "raw_data ''humidity'' = Some humidity"
  shows "snd (process self raw_data) ''iaq''
           = Some (of_int (spec_iaq
               (voc_index_of (the (ewma_baseline (fst (process self raw_data))))
                  (np_mean (gas_window (fst (process self raw_data)))))
               (pm25_to_aqi (Some pm25)) humidity temp))"
  using assms
  by (simp add: process_def Let_def spec_iaq_def spec_humidity_penalty_def
        spec_temp_penalty_def algebra_simps)

text \<open>
  Claim C7. For every reading that has the four required fields, the fused IAQ that
  \<open>process\<close> returns is \<open>min(500, round(0.5 voc_index + 0.5 pm25_aqi + humidity_penalty +
  temp_penalty))\<close>, with \<open>voc_index\<close> the unrounded index of this cycle and the penalties
  as the specification gives them; hence it lies in \<open>[0, 500]\<close>.
\<close>

theorem fused_iaq_formula:
  assumes "raw_data ''gas_resistance'' = Some gas_raw" and "raw_data ''pm25'' = Some pm25"
    and "raw_data ''temperature'' = Some temp" and "raw_data ''humidity'' = Some humidity"
    and "process self raw_data = (self', out)"
    and "voc = voc_index_of (the (ewma_baseline self')) (np_mean (gas_window self'))"
  shows "\<exists>iaq. out ''iaq'' = Some (of_int iaq)
           \<and> iaq = min 500 (py_round (0.5 * voc + 0.5 * of_int (pm25_to_aqi (Some pm25))
                      + max 0 (humidity - 70) * 2
                      + (if temp < 18 then (18 - temp) * 2
                         else if temp > 26 then (temp - 26) * 2 else 0)))
           \<and> iaq = spec_iaq voc (pm25_to_aqi (Some pm25)) humidity temp
           \<and> 0 \<le> iaq \<and> iaq \<le> 500
           \<and> out ''aqi'' = Some (of_int (pm25_to_aqi (Some pm25)))
           \<and> out ''voc_index'' = Some (of_int (py_round voc))"
proof -
  let ?iaq = "spec_iaq voc (pm25_to_aqi (Some pm25)) humidity temp"
  have a: "out ''iaq'' = Some (of_int ?iaq)"
    using process_iaq [OF assms(1-4), of self] by (simp add: assms(5) assms(6))
  have b: "?iaq = min 500 (py_round (0.5 * voc + 0.5 * of_int (pm25_to_aqi (Some pm25))
                      + max 0 (humidity - 70) * 2
                      + (if temp < 18 then (18 - temp) * 2
                         else if temp > 26 then (temp - 26) * 2 else 0)))"
    by (simp add: spec_iaq_def spec_humidity_penalty_def spec_temp_penalty_def)
  have v: "0 \<le> voc" using voc_index_of_range unfolding assms(6) by blast
  have c: "0 \<le> ?iaq \<and> ?iaq \<le> 500"
    using v pm25_to_aqi_nonneg by (rule spec_iaq_range)
  have d: "out ''aqi'' = Some (of_int (pm25_to_aqi (Some pm25)))
           \<and> out ''voc_index'' = Some (of_int (py_round voc))"
    using assms(1-5) unfolding assms(6) by (auto simp add: process_def Let_def)
  show ?thesis using a b c d by blast
qed

lemma warm_humid_process:
  "process new_IAQProcessor warm_humid_reading =
     (\<lparr>ewma_baseline = Some 100000, gas_window = [100000]\<rparr>,
      [''iaq'' \<mapsto> 96, ''aqi'' \<mapsto> 137, ''voc_index'' \<mapsto> 0, ''co2_equivalent'' \<mapsto> 475])"
proof -
  have f: "warm_humid_reading ''gas_resistance'' = Some 100000"
    "warm_humid_reading ''pm25'' = Some 50"
    "warm_humid_reading ''temperature'' = Some 30"
    "warm_humid_reading ''humidity'' = Some 80"
    by (simp_all add: warm_humid_reading_def)
  have w: "deque_append ROLLING_WINDOW_SIZE [] (np_clip 100000 10000 500000) = [100000]"
    by (simp add: deque_append_def ROLLING_WINDOW_SIZE_def np_clip_def)
  have m: "np_mean [100000] = 100000" by (simp add: np_mean_def)
  have v: "voc_index_of 100000 100000 = 0" by (simp add: voc_index_of_def)
  have r: "py_round (193 / 2) = 96" "py_round 0 = 0" "py_round 475 = 475"
    by (simp_all add: py_round_def)
  show ?thesis
    by (simp add: process_def new_IAQProcessor_def f w m v r pm25_to_aqi_50 [simplified] Let_def)
qed

theorem fused_iaq_formula_witness:
  "warm_humid_reading ''gas_resistance'' = Some 100000
   \<and> warm_humid_reading ''pm25'' = Some 50
   \<and> warm_humid_reading ''temperature'' = Some 30
   \<and> warm_humid_reading ''humidity'' = Some 80
   \<and> snd (process new_IAQProcessor warm_humid_reading) ''iaq'' = Some 96
   \<and> spec_iaq 0 137 80 30 = 96"
proof -
  have h: "warm_humid_reading ''gas_resistance'' = Some 100000"
    "warm_humid_reading ''pm25'' = Some 50"
    "warm_humid_reading ''temperature'' = Some 30"
    "warm_humid_reading ''humidity'' = Some 80"
    by (simp_all add: warm_humid_reading_def)
  have v: "voc_index_of 100000 100000 = 0"
    by (simp add: voc_index_of_def)
  have a: "pm25_to_aqi (Some 50) = 137"
    using pm25_to_aqi_50 by simp
  from fused_iaq_formula [OF h warm_humid_process refl]
  have "spec_iaq 0 137 80 30 = 96"
    by (simp add: np_mean_def v a)
  then show ?thesis using h by (simp add: warm_humid_process)
qed

subsection \<open>AcquisitionLoop\<close>

lemma process_missing:
  assumes "raw_data ''gas_resistance'' = None \<or> raw_data ''pm25'' = None
           \<or> raw_data ''temperature'' = None \<or> raw_data ''humidity'' = None"
  shows "process self raw_data = (self, Map.empty)"
  using assms by (simp add: process_def)

lemma acquisition_cycle_missing:
  assumes "raw_data ''gas_resistance'' = None \<or> raw_data ''pm25'' = None
           \<or> raw_data ''temperature'' = None \<or> raw_data ''humidity'' = None"
    and "raw_data \<noteq> Map.empty"
  shows "acquisition_cycle us ts now (Some raw_data) st =
           (let d = check_conditions us now (raw_data(''timestamp'' \<mapsto> ts)) (detector st);
                stamped = \<lparr>measurements = raw_data(''timestamp'' \<mapsto> ts),
                           stamp_alert_active = alert_active d, stamp_state = alert_state d,
                           iaq_level = get_iaq_level (raw_data ''iaq''),
                           pm25_level = get_iaq_level (raw_data ''aqi'')\<rparr>
            in st\<lparr>detector := d, latest_sensor_data := Some stamped,
                  history_buffer := deque_append HISTORY_BUFFER_SIZE (history_buffer st) stamped\<rparr>)"
  using assms(2) by (simp add: acquisition_cycle_def process_missing [OF assms(1)] Let_def)

lemma bme_only_missing:
  "bme_only_reading g ''pm25'' = None" "bme_only_reading g \<noteq> Map.empty"
  by (simp_all add: bme_only_reading_def)

lemma bme_only_detector:
  "detector (acquisition_cycle us ts now (Some (bme_only_reading g)) st) =
     check_conditions us now ((bme_only_reading g)(''timestamp'' \<mapsto> ts)) (detector st)"
  by (simp add: acquisition_cycle_missing bme_only_missing Let_def)

lemma after_four_bme_detector:
  "detector after_four_bme_cycles =
     \<lparr>alert_active = False, alert_state = SAFE, bot_queue = Some [(System_online, Info)],
      temp_history = [22, 22, 22, 22], gas_history = [100000, 100000, 100000, 100000],
      last_alert_time = 0, test_alert_active = False,
      buzzer_is_setup = True, buzzer_siren = False\<rparr>"
  unfolding after_four_bme_cycles_def bme_only_detector
  by (simp add: initial_monitor_def bme_only_reading_def alert_eval)

lemma fifth_bme_detector:
  "alert_state (detector (acquisition_cycle default_settings 1008 1008
      (Some (bme_only_reading 40000)) after_four_bme_cycles)) = SMOKE"
  "alert_active (detector (acquisition_cycle default_settings 1008 1008
      (Some (bme_only_reading 40000)) after_four_bme_cycles))"
  unfolding bme_only_detector after_four_bme_detector
  by (simp_all add: bme_only_reading_def alert_eval)

text \<open>
  Claim C4, as the source has it. When one of the four required fields is absent,
  \<open>process\<close> returns the empty dictionary and leaves the processor as it is. The loop
  skips the cycle, and so keeps the alert state, only when the raw reading as a whole is
  empty. A non-empty reading that lacks a required field still goes through
  \<open>check_conditions\<close>, merged with the empty result and its timestamp, and the alert
  state after the cycle is the one that \<open>check_conditions\<close> yields.
\<close>

theorem empty_result_still_checked:
  assumes "raw_data ''gas_resistance'' = None \<or> raw_data ''pm25'' = None
           \<or> raw_data ''temperature'' = None \<or> raw_data ''humidity'' = None"
  shows "process p raw_data = (p, Map.empty)
         \<and> (raw_data = Map.empty \<longrightarrow>
               acquisition_cycle us ts now (Some raw_data) st = st)
         \<and> (raw_data \<noteq> Map.empty \<longrightarrow>
               processor (acquisition_cycle us ts now (Some raw_data) st) = processor st
               \<and> detector (acquisition_cycle us ts now (Some raw_data) st)
                   = check_conditions us now (raw_data(''timestamp'' \<mapsto> ts)) (detector st))"
proof -
  have a: "process p raw_data = (p, Map.empty)"
    by (rule process_missing [OF assms])
  have b: "raw_data = Map.empty \<longrightarrow> acquisition_cycle us ts now (Some raw_data) st = st"
    by (simp add: acquisition_cycle_def)
  have c: "raw_data \<noteq> Map.empty \<longrightarrow>
      processor (acquisition_cycle us ts now (Some raw_data) st) = processor st
      \<and> detector (acquisition_cycle us ts now (Some raw_data) st)
          = check_conditions us now (raw_data(''timestamp'' \<mapsto> ts)) (detector st)"
    by (simp add: acquisition_cycle_missing [OF assms] Let_def)
  show ?thesis using a b c by blast
qed

theorem empty_result_still_checked_witness:
  "(Map.empty :: reading) ''pm25'' = None
   \<and> acquisition_cycle default_settings 1008 1008 (Some Map.empty) after_four_bme_cycles
       = after_four_bme_cycles
   \<and> bme_only_reading 40000 ''pm25'' = None \<and> bme_only_reading 40000 \<noteq> Map.empty
   \<and> process (processor after_four_bme_cycles) (bme_only_reading 40000)
       = (processor after_four_bme_cycles, Map.empty)
   \<and> detector (acquisition_cycle default_settings 1008 1008 (Some (bme_only_reading 40000))
        after_four_bme_cycles)
       = check_conditions default_settings 1008 ((bme_only_reading 40000)(''timestamp'' \<mapsto> 1008))
           (detector after_four_bme_cycles)"
proof -
  have a: "bme_only_reading 40000 ''gas_resistance'' = None
           \<or> bme_only_reading 40000 ''pm25'' = None
           \<or> bme_only_reading 40000 ''temperature'' = None
           \<or> bme_only_reading 40000 ''humidity'' = None"
    by (simp add: bme_only_missing)
  have e: "(Map.empty :: reading) ''gas_resistance'' = None
           \<or> (Map.empty :: reading) ''pm25'' = None
           \<or> (Map.empty :: reading) ''temperature'' = None
           \<or> (Map.empty :: reading) ''humidity'' = None"
    by simp
  from empty_result_still_checked [OF e, where us = default_settings and ts = 1008
        and now = 1008 and st = after_four_bme_cycles]
    empty_result_still_checked [OF a, where us = default_settings and ts = 1008
        and now = 1008 and st = after_four_bme_cycles
        and p = "processor after_four_bme_cycles"]
  show ?thesis by (simp add: bme_only_missing)
qed

text \<open>
  Claim C4 as stated fails: with the particulate sensor absent, every reading lacks
  \<open>pm25\<close> and \<open>process\<close> returns the empty dictionary, yet the fifth cycle, in which the
  gas resistance has dropped, changes the alert state from \<open>SAFE\<close> to \<open>SMOKE\<close>.
\<close>

theorem missing_pm25_cycle_changes_alert_state:
  "bme_only_reading 40000 ''pm25'' = None
   \<and> process (processor after_four_bme_cycles) (bme_only_reading 40000)
       = (processor after_four_bme_cycles, Map.empty)
   \<and> alert_state (detector after_four_bme_cycles) = SAFE
   \<and> \<not> alert_active (detector after_four_bme_cycles)
   \<and> alert_state (detector (acquisition_cycle default_settings 1008 1008
        (Some (bme_only_reading 40000)) after_four_bme_cycles)) = SMOKE
   \<and> alert_active (detector (acquisition_cycle default_settings 1008 1008
        (Some (bme_only_reading 40000)) after_four_bme_cycles))"
  using fifth_bme_detector
  by (simp add: bme_only_missing process_missing after_four_bme_detector)

subsection \<open>RetentionWorker\<close>

lemma days_before_year_nonneg:
  assumes "1 \<le> y"
  shows "0 \<le> days_before_year y"
proof -
  have a: "0 \<le> y - 1" using assms by simp
  then have "(y - 1) div 100 \<le> (y - 1) div 4"
    by (rule zdiv_mono2) simp_all
  moreover have "0 \<le> (y - 1) div 400" using a by simp
  moreover have "0 \<le> (y - 1) * 365" using a by simp
  ultimately show ?thesis unfolding days_before_year_def by linarith
qed

lemma days_in_month_nonneg: "0 \<le> days_in_month y m"
  by (simp add: days_in_month_def)

lemma days_before_month_nonneg: "0 \<le> days_before_month y m"
  unfolding days_before_month_def
  by (rule sum_list_nonneg) (auto simp add: days_in_month_nonneg)

lemma py_date_ge_1: "py_date y m d = Some n \<Longrightarrow> 1 \<le> n"
  using days_before_year_nonneg [of y] days_before_month_nonneg [of y m]
  by (auto simp add: py_date_def split: if_splits)

lemma file_date_ge_1: "file_date dirpath f = Some n \<Longrightarrow> 1 \<le> n"
  by (auto simp add: file_date_def Let_def py_date_ge_1 split: option.splits)

lemma LOG_DIR_relative: "\<not> prefix ''/'' LOG_DIR" "LOG_DIR \<noteq> []"
  by (simp_all add: LOG_DIR_def)

lemma path_join_relative:
  assumes "\<not> prefix ''/'' b"
  shows "path_join a b = (if a = [] \<or> suffix ''/'' a then a @ b else a @ ''/'' @ b)"
  using assms by (simp add: path_join_def)

lemma walk_entry_dir:
  assumes "walk_entry dirpath f"
  shows "prefix LOG_DIR dirpath" and "dirpath \<noteq> []" and "\<not> prefix ''/'' dirpath"
    and "\<not> prefix ''/'' f" and "\<not> suffix ''/'' dirpath" and "CHR ''/'' \<notin> set f"
proof -
  show p: "prefix LOG_DIR dirpath"
    using assms by (auto simp add: walk_entry_def dest: append_prefixD)
  then show "dirpath \<noteq> []" using LOG_DIR_relative(2) by auto
  show "\<not> prefix ''/'' dirpath"
  proof
    assume "prefix ''/'' dirpath"
    with p have "prefix ''/'' LOG_DIR \<or> prefix LOG_DIR ''/''"
      by (metis prefix_same_cases)
    then show False by (simp add: LOG_DIR_def prefix_def)
  qed
  show "\<not> prefix ''/'' f"
    using assms by (cases f) (auto simp add: walk_entry_def)
  show "\<not> suffix ''/'' dirpath" and "CHR ''/'' \<notin> set f"
    using assms by (simp_all add: walk_entry_def)
qed

lemma walk_entry_join:
  assumes "walk_entry dirpath f"
  shows "path_join dirpath f = dirpath @ ''/'' @ f"
  using walk_entry_dir [OF assms] by (simp add: path_join_relative)

lemma under_root:
  assumes "walk_entry dirpath f"
  shows "prefix (abspath cwd LOG_DIR) (abspath cwd (path_join dirpath f))"
proof -
  note d = walk_entry_dir [OF assms]
  define p where "p = dirpath @ ''/'' @ f"
  have pj: "prefix LOG_DIR p"
    using d(1) by (auto simp add: p_def prefix_def)
  have rel: "\<not> prefix ''/'' p"
    using d(2,3) by (cases dirpath) (auto simp add: p_def)
  have "prefix (path_join cwd LOG_DIR) (path_join cwd p)"
    using pj by (simp add: path_join_relative [OF rel] path_join_relative [OF LOG_DIR_relative(1)])
  then have "prefix (abspath cwd LOG_DIR) (abspath cwd p)"
    using rel LOG_DIR_relative(1) by (simp add: abspath_def)
  then show ?thesis
    unfolding walk_entry_join [OF assms] p_def .
qed

lemma try_file_walk_entry:
  assumes "walk_entry dirpath f"
  shows "try_file cwd cutoff dirpath f =
           (case file_date dirpath f of
              None \<Rightarrow> Parse_failed
            | Some d \<Rightarrow> if d < cutoff then Removed (path_join dirpath f) else Retained)"
  using under_root [OF assms, of cwd] by (simp add: try_file_def Let_def split: option.splits)

text \<open>The loops remove the dated files before the cutoff, and nothing else.\<close>

lemma clean_files_eq:
  assumes "list_all (walk_entry dirpath) filenames"
  shows "clean_files cwd cutoff dirpath removed filenames =
           removed @ map (path_join dirpath)
             (filter (\<lambda>f. case file_date dirpath f of None \<Rightarrow> False | Some d \<Rightarrow> d < cutoff)
                filenames)"
  using assms
proof (induction filenames arbitrary: removed)
  case Nil
  then show ?case by simp
next
  case (Cons f fs)
  then have e: "walk_entry dirpath f" and r: "list_all (walk_entry dirpath) fs" by simp_all
  show ?case
    by (cases "file_date dirpath f")
       (simp_all add: try_file_walk_entry [OF e] Cons.IH [OF r] on_parse_error_def)
qed

lemma clean_walk_eq:
  assumes "walk_of_log_dir tree"
  shows "clean_walk cwd cutoff removed tree = removed @ dated_before cutoff tree"
  using assms
proof (induction tree arbitrary: removed)
  case Nil
  then show ?case by (simp add: dated_before_def)
next
  case (Cons e tree)
  obtain dirpath filenames where e: "e = (dirpath, filenames)" by (cases e) auto
  from Cons.prems have a: "list_all (walk_entry dirpath) filenames"
    and b: "walk_of_log_dir tree"
    by (simp_all add: walk_of_log_dir_def e)
  show ?case
    using Cons.IH [OF b] by (simp add: e clean_files_eq [OF a] dated_before_def)
qed

lemma dated_before_empty:
  assumes "cutoff \<le> 1"
  shows "dated_before cutoff tree = []"
proof -
  have "\<And>dirpath f. \<not> (case file_date dirpath f of None \<Rightarrow> False | Some d \<Rightarrow> d < cutoff)"
    using assms by (auto split: option.splits dest: file_date_ge_1)
  then show ?thesis by (simp add: dated_before_def)
qed

lemma path_split_unique:
  assumes "a @ ''/'' @ f = a' @ ''/'' @ f'" and "CHR ''/'' \<notin> set f" and "CHR ''/'' \<notin> set f'"
  shows "a = a' \<and> f = f'"
proof -
  have "rev f @ CHR ''/'' # rev a = rev f' @ CHR ''/'' # rev a'"
    using arg_cong [OF assms(1), of rev] by simp
  then have "takeWhile (\<lambda>c. c \<noteq> CHR ''/'') (rev f @ CHR ''/'' # rev a)
      = takeWhile (\<lambda>c. c \<noteq> CHR ''/'') (rev f' @ CHR ''/'' # rev a')"
    by simp
  moreover have "takeWhile (\<lambda>c. c \<noteq> CHR ''/'') (rev f @ CHR ''/'' # rev a) = rev f"
    using assms(2) by (auto simp add: takeWhile_tail)
  moreover have "takeWhile (\<lambda>c. c \<noteq> CHR ''/'') (rev f' @ CHR ''/'' # rev a') = rev f'"
    using assms(3) by (auto simp add: takeWhile_tail)
  ultimately have "f = f'" by simp
  with assms(1) show ?thesis by simp
qed

lemma dated_before_member:
  assumes "walk_of_log_dir tree" and "(dirpath, filenames) \<in> set tree" and "f \<in> set filenames"
  shows "path_join dirpath f \<in> set (dated_before cutoff tree)
           \<longleftrightarrow> (\<exists>d. file_date dirpath f = Some d \<and> d < cutoff)"
proof
  assume "path_join dirpath f \<in> set (dated_before cutoff tree)"
  then obtain dirpath' filenames' f' where m: "(dirpath', filenames') \<in> set tree"
    "f' \<in> set filenames'" "path_join dirpath' f' = path_join dirpath f"
    and old: "case file_date dirpath' f' of None \<Rightarrow> False | Some d \<Rightarrow> d < cutoff"
    by (auto simp add: dated_before_def)
  have e: "walk_entry dirpath f"
    using assms by (auto simp add: walk_of_log_dir_def list_all_iff)
  have e': "walk_entry dirpath' f'"
    using assms(1) m(1,2) by (auto simp add: walk_of_log_dir_def list_all_iff)
  have "dirpath' @ ''/'' @ f' = dirpath @ ''/'' @ f"
    using m(3) by (simp only: walk_entry_join [OF e] walk_entry_join [OF e'])
  then have "dirpath' = dirpath \<and> f' = f"
    using walk_entry_dir(6) [OF e'] walk_entry_dir(6) [OF e] by (rule path_split_unique)
  with old show "\<exists>d. file_date dirpath f = Some d \<and> d < cutoff"
    by (auto split: option.splits)
next
  assume "\<exists>d. file_date dirpath f = Some d \<and> d < cutoff"
  then show "path_join dirpath f \<in> set (dated_before cutoff tree)"
    using assms(2,3) by (force simp add: dated_before_def)
qed

lemma forever_is_no_day_count: "py_int (butlast ''forever'') = None"
  by code_simp

lemma run_with_day_count:
  assumes "walk_of_log_dir tree" and "logRetentionPeriod us = Some period"
    and "py_int (butlast period) = Some n" and "0 \<le> n"
    and "1 \<le> today" and "today \<le> MAXORDINAL"
  shows "removed_paths (auto_maintenance_run cwd today us tree) = dated_before (today - n) tree"
proof -
  have nf: "period \<noteq> ''forever''"
    using assms(3) forever_is_no_day_count by auto
  have days: "retention_days period = n"
    by (simp add: retention_days_def assms(3))
  show ?thesis
  proof (cases "cutoff_date today n")
    case (Inl e)
    then have "today - n < 1"
      using assms(4,6) by (auto simp add: cutoff_date_def MAXORDINAL_def split: if_splits)
    then have "dated_before (today - n) tree = []"
      by (intro dated_before_empty) simp
    then show ?thesis
      by (simp add: auto_maintenance_run_def Let_def assms(2) nf days Inl removed_paths_def)
  next
    case (Inr c)
    then have c: "c = today - n"
      by (auto simp add: cutoff_date_def split: if_splits)
    show ?thesis
      by (simp add: auto_maintenance_run_def Let_def assms(2) nf days Inr removed_paths_def
            clean_walk_eq [OF assms(1)] c)
  qed
qed

lemma example_tree_walk: "walk_of_log_dir example_tree"
  by code_simp

lemma example_dates:
  "py_date 2024 6 30 = Some 739067"
  "file_date ''historical_logs/2024/03'' ''31.csv'' = Some 738976"
  "file_date ''historical_logs/2024/04'' ''02.csv'' = Some 738978"
  "file_date ''historical_logs/2024/03'' ''notes.txt'' = None"
  by code_simp+

lemma example_dated_before:
  "dated_before 738977 example_tree = [''historical_logs/2024/03/31.csv'']"
  by code_simp

text \<open>
  Claim C8. Under a retention setting \<open>Nd\<close> a run removes exactly the files whose name
  and directory give a date strictly before today minus \<open>N\<close> days: a file dated 91 days
  ago goes under \<open>90d\<close>, one dated 89 days ago stays, and a file whose name gives no
  valid date is never removed.
\<close>

theorem retention_removes_exactly_older:
  assumes "walk_of_log_dir tree" and "logRetentionPeriod us = Some period"
    and "py_int (butlast period) = Some n" and "0 \<le> n"
    and "1 \<le> today" and "today \<le> MAXORDINAL"
    and "removed = removed_paths (auto_maintenance_run cwd today us tree)"
  shows "removed = dated_before (today - n) tree
         \<and> (\<forall>(dirpath, filenames) \<in> set tree. \<forall>f \<in> set filenames.
               (path_join dirpath f \<in> set removed
                  \<longleftrightarrow> (\<exists>d. file_date dirpath f = Some d \<and> d < today - n))
               \<and> (file_date dirpath f = None \<longrightarrow> path_join dirpath f \<notin> set removed)
               \<and> (n = 90 \<and> file_date dirpath f = Some (today - 91)
                    \<longrightarrow> path_join dirpath f \<in> set removed)
               \<and> (n = 90 \<and> file_date dirpath f = Some (today - 89)
                    \<longrightarrow> path_join dirpath f \<notin> set removed))"
proof -
  have eq: "removed = dated_before (today - n) tree"
    unfolding assms(7) by (rule run_with_day_count [OF assms(1-6)])
  have "\<And>dirpath filenames f. (dirpath, filenames) \<in> set tree \<Longrightarrow> f \<in> set filenames \<Longrightarrow>
      (path_join dirpath f \<in> set removed
         \<longleftrightarrow> (\<exists>d. file_date dirpath f = Some d \<and> d < today - n))"
    unfolding eq by (rule dated_before_member [OF assms(1)])
  then show ?thesis using eq by fastforce
qed

theorem retention_removes_exactly_older_witness:
  "walk_of_log_dir example_tree \<and> logRetentionPeriod default_settings = Some ''90d''
   \<and> py_int (butlast ''90d'') = Some 90 \<and> py_date 2024 6 30 = Some 739067
   \<and> file_date ''historical_logs/2024/03'' ''31.csv'' = Some (739067 - 91)
   \<and> file_date ''historical_logs/2024/04'' ''02.csv'' = Some (739067 - 89)
   \<and> file_date ''historical_logs/2024/03'' ''notes.txt'' = None
   \<and> removed_paths (auto_maintenance_run ''/home/pi/AtmosEye'' 739067 default_settings example_tree)
       = [''historical_logs/2024/03/31.csv'']"
proof -
  have p: "logRetentionPeriod default_settings = Some ''90d''"
    by (simp add: default_settings_def)
  have i: "py_int (butlast ''90d'') = Some 90" by code_simp
  have t: "(1::int) \<le> 739067" "739067 \<le> MAXORDINAL" by (simp_all add: MAXORDINAL_def)
  from retention_removes_exactly_older [OF example_tree_walk p i _ t refl,
      of "''/home/pi/AtmosEye''"]
  have "removed_paths (auto_maintenance_run ''/home/pi/AtmosEye'' 739067 default_settings
          example_tree) = dated_before (739067 - 90) example_tree"
    by simp
  then show ?thesis
    using example_tree_walk p i example_dates by (simp add: example_dated_before)
qed

text \<open>
  Claim C5, as the source has it. With the retention setting \<open>forever\<close> a run that was not
  requested manually removes nothing and only clears the manual-run flag.
\<close>

theorem forever_skips_scheduled_run:
  assumes "logRetentionPeriod us = Some ''forever''" and "\<not> truthy (run_manual_cleanup us)"
  shows "auto_maintenance_run cwd today us tree = Inr (us\<lparr>run_manual_cleanup := None\<rparr>, [])
         \<and> removed_paths (auto_maintenance_run cwd today us tree) = []"
  using assms by (simp add: auto_maintenance_run_def Let_def removed_paths_def)

theorem forever_skips_scheduled_run_witness:
  "logRetentionPeriod (default_settings\<lparr>logRetentionPeriod := Some ''forever''\<rparr>) = Some ''forever''
   \<and> \<not> truthy (run_manual_cleanup (default_settings\<lparr>logRetentionPeriod := Some ''forever''\<rparr>))
   \<and> removed_paths (auto_maintenance_run ''/home/pi/AtmosEye'' 739067
        (default_settings\<lparr>logRetentionPeriod := Some ''forever''\<rparr>) dated_tree) = []"
proof -
  have a: "logRetentionPeriod (default_settings\<lparr>logRetentionPeriod := Some ''forever''\<rparr>)
      = Some ''forever''" by simp
  have b: "\<not> truthy (run_manual_cleanup (default_settings\<lparr>logRetentionPeriod := Some ''forever''\<rparr>))"
    by (simp add: default_settings_def truthy_def)
  from forever_skips_scheduled_run [OF a b] a b show ?thesis by blast
qed

text \<open>
  Claim C5 as stated fails on a manually requested run: \<open>forever\<close> does not parse as a day
  count, the run falls back to 90 days and removes the file dated 91 days ago.
\<close>

theorem forever_manual_run_removes:
  "logRetentionPeriod forever_manual_settings = Some ''forever''
   \<and> removed_paths (auto_maintenance_run ''/home/pi/AtmosEye'' 739067 forever_manual_settings
        dated_tree) = [''historical_logs/2024/03/31.csv'']"
  by code_simp

end
